theory Spec2Isabelle
  imports Main
begin

section \<open>Python values, exceptions and strings\<close>

text \<open>
  The script \<^verbatim>\<open>pandoc_converter.py\<close> is a Nautilus extension: it scans the pandoc
  data directory for defaults files, offers one menu entry per defaults file on a single
  selected Markdown file, and runs pandoc in a child process.

  Python strings are modelled as \<^typ>\<open>string\<close>: a list of the bytes of the UTF-8
  encoding. Exceptions are values: a function that can raise returns \<open>exn + 'a\<close>, with
  \<open>Inl\<close> for the exception.
\<close>

datatype exn_class =
  YAMLError | OSError | UnicodeDecodeError | AttributeError | TypeError | ValueError
  | IndexError | UnboundLocalError | CalledProcessError

text \<open>
  An exception has a class and the text \<^verbatim>\<open>str(e)\<close>. \<^verbatim>\<open>IOError\<close> is Python 3's alias of
  \<^verbatim>\<open>OSError\<close>, whose subclasses (\<^verbatim>\<open>FileNotFoundError\<close>, \<^verbatim>\<open>PermissionError\<close>, ...)
  are all modelled by the class \<open>OSError\<close>. The texts of the exceptions raised by the
  library functions modelled here are the library's own and vary with its version; the
  model gives them a short fixed text.
\<close>

datatype exn = Exn (cls: exn_class) (msg: string)

text \<open>What \<^verbatim>\<open>yaml.safe_load\<close> can return: scalars, lists and mappings.\<close>

datatype pyval =
  PNone | PBool bool | PInt int | PStr string | PList "pyval list"
  | PDict "(pyval \<times> pyval) list"

text \<open>\<^verbatim>\<open>bool(v)\<close>: the truth value Python's \<^verbatim>\<open>or\<close>, \<^verbatim>\<open>if\<close> and \<^verbatim>\<open>not\<close> test.\<close>

fun truthy :: "pyval \<Rightarrow> bool" where
  "truthy PNone = False"
| "truthy (PBool b) = b"
| "truthy (PInt i) = (i \<noteq> 0)"
| "truthy (PStr s) = (s \<noteq> [])"
| "truthy (PList xs) = (xs \<noteq> [])"
| "truthy (PDict kvs) = (kvs \<noteq> [])"

text \<open>
  \<^verbatim>\<open>config.get(key)\<close>: only a dict has the method; on any other value the attribute
  lookup raises \<^verbatim>\<open>AttributeError\<close>. A missing key gives \<^verbatim>\<open>None\<close>.
\<close>

definition py_get :: "pyval \<Rightarrow> string \<Rightarrow> exn + pyval" where
  "py_get config key =
     (case config of
        PDict kvs \<Rightarrow> Inr (case map_of kvs (PStr key) of None \<Rightarrow> PNone | Some v \<Rightarrow> v)
      | _ \<Rightarrow> Inl (Exn AttributeError ''object has no attribute get''))"

text \<open>
  \<^verbatim>\<open>config.get("to") or config.get("write")\<close>, the expression of both
  \<^verbatim>\<open>_find_defaults_files\<close> and \<^verbatim>\<open>_run_conversion\<close>: the right operand is evaluated only
  when the left one is falsy.
\<close>

definition output_format_of :: "pyval \<Rightarrow> exn + pyval" where
  "output_format_of config =
     (case py_get config ''to'' of
        Inl e \<Rightarrow> Inl e
      | Inr a \<Rightarrow> if truthy a then Inr a else py_get config ''write'')"

text \<open>
  Splitting a string at every character that satisfies \<open>P\<close>: \<^verbatim>\<open>str.split(sep)\<close> for a
  one-character separator, and \<^verbatim>\<open>re.split\<close> for a character class.
\<close>

fun split_on :: "(char \<Rightarrow> bool) \<Rightarrow> string \<Rightarrow> string list" where
  "split_on P [] = [[]]"
| "split_on P (c # cs) =
     (if P c then [] # split_on P cs
      else (case split_on P cs of
              [] \<Rightarrow> [[c]]
            | piece # pieces \<Rightarrow> (c # piece) # pieces))"

definition startswith :: "string \<Rightarrow> string \<Rightarrow> bool" where
  "startswith s p = (take (length p) s = p)"

definition endswith :: "string \<Rightarrow> string \<Rightarrow> bool" where
  "endswith s p = (length p \<le> length s \<and> drop (length s - length p) s = p)"

text \<open>\<^verbatim>\<open>s.rfind(c)\<close>: the index of the last occurrence of \<open>c\<close>, or \<open>-1\<close>.\<close>

definition rfind :: "string \<Rightarrow> char \<Rightarrow> int" where
  "rfind s c =
     (if c \<in> set s then int (length s) - 1 - int (length (takeWhile (\<lambda>x. x \<noteq> c) (rev s)))
      else - 1)"

text \<open>
  \<^verbatim>\<open>s.lower()\<close> on the ASCII letters. (Python lowers every cased code point; outside
  ASCII the only one it sends to an ASCII letter is U+212A, the Kelvin sign.)
\<close>

definition lower_char :: "char \<Rightarrow> char" where
  "lower_char c =
     (case map_of (zip ''ABCDEFGHIJKLMNOPQRSTUVWXYZ'' ''abcdefghijklmnopqrstuvwxyz'') c of
        None \<Rightarrow> c
      | Some l \<Rightarrow> l)"

definition lower :: "string \<Rightarrow> string" where
  "lower s = map lower_char s"

section \<open>Paths (\<^verbatim>\<open>pathlib\<close>, POSIX flavour)\<close>

text \<open>
  A path is its root (\<open>''''\<close>, \<open>''/''\<close> or \<open>''//''\<close>) and the list of its components,
  as \<^verbatim>\<open>pathlib\<close> of Python 3.8 to 3.13 parses it: empty components and \<open>''.''\<close> are
  dropped.
\<close>

datatype path = PurePath (root: string) (tail: "string list")

definition splitroot :: "string \<Rightarrow> string \<times> string" where
  "splitroot p =
     (if take 1 p \<noteq> ''/'' then ([], p)
      else if take 1 (drop 1 p) \<noteq> ''/'' \<or> take 1 (drop 2 p) = ''/'' then (''/'', drop 1 p)
      else (take 2 p, drop 2 p))"

definition Path :: "string \<Rightarrow> path" where
  "Path s =
     (if s = [] then PurePath [] []
      else (case splitroot s of
              (r, rel) \<Rightarrow>
                PurePath r (filter (\<lambda>x. x \<noteq> [] \<and> x \<noteq> ''.'') (split_on (\<lambda>c. c = CHR ''/'') rel))))"

definition name :: "path \<Rightarrow> string" where
  "name p = (if tail p = [] then [] else last (tail p))"

definition suffix_of_name :: "string \<Rightarrow> string" where
  "suffix_of_name nm =
     (let i = rfind nm CHR ''.''
      in if 0 < i \<and> i < int (length nm) - 1 then drop (nat i) nm else [])"

definition stem_of_name :: "string \<Rightarrow> string" where
  "stem_of_name nm =
     (let i = rfind nm CHR ''.''
      in if 0 < i \<and> i < int (length nm) - 1 then take (nat i) nm else nm)"

definition suffix :: "path \<Rightarrow> string" where
  "suffix p = suffix_of_name (name p)"

definition stem :: "path \<Rightarrow> string" where
  "stem p = stem_of_name (name p)"

definition parent :: "path \<Rightarrow> path" where
  "parent p = PurePath (root p) (butlast (tail p))"

text \<open>\<^verbatim>\<open>str(p)\<close>.\<close>

fun join :: "string \<Rightarrow> string list \<Rightarrow> string" where
  "join sep [] = []"
| "join sep [x] = x"
| "join sep (x # y # ys) = x @ sep @ join sep (y # ys)"

definition str_path :: "path \<Rightarrow> string" where
  "str_path p = (if root p = [] \<and> tail p = [] then ''.'' else root p @ join ''/'' (tail p))"

text \<open>\<^verbatim>\<open>p / s\<close>: an absolute right operand replaces the left one.\<close>

definition joinpath :: "path \<Rightarrow> string \<Rightarrow> path" where
  "joinpath p s =
     (let q = Path s
      in if root q \<noteq> [] then q else PurePath (root p) (tail p @ tail q))"

text \<open>
  \<^verbatim>\<open>p.with_suffix(suffix)\<close> raises \<^verbatim>\<open>ValueError\<close> on a suffix that holds a separator, that
  is not empty and does not start with a dot, or that is the dot alone, and on a path with
  an empty name.
\<close>

definition with_suffix :: "path \<Rightarrow> string \<Rightarrow> exn + path" where
  "with_suffix p sfx =
     (if CHR ''/'' \<in> set sfx then Inl (Exn ValueError ''Invalid suffix'')
      else if (sfx \<noteq> [] \<and> \<not> startswith sfx ''.'') \<or> sfx = ''.''
        then Inl (Exn ValueError ''Invalid suffix'')
      else
        let nm = name p
        in if nm = [] then Inl (Exn ValueError ''path has an empty name'')
           else
             let old_suffix = suffix p;
                 nm' = (if old_suffix = [] then nm @ sfx
                        else take (length nm - length old_suffix) nm @ sfx)
             in Inr (PurePath (root p) (butlast (tail p) @ [nm'])))"

section \<open>Resolving the output format to a file extension\<close>

definition FORMAT_EXTENSIONS :: "(string \<times> string) list" where
  "FORMAT_EXTENSIONS =
     [(''docx'', ''.docx''),
      (''epub'', ''.epub''),
      (''html'', ''.html''),
      (''markdown'', ''.md''),
      (''odt'', ''.odt''),
      (''pdf'', ''.pdf''),
      (''pptx'', ''.pptx''),
      (''tei'', ''.xml''),
      (''latex'', ''.tex''),
      (''typst'', ''.typ''),
      (''revealjs'', ''.html'')]"

text \<open>\<^verbatim>\<open>d.get(key, default)\<close> on a dict with string keys.\<close>

definition dict_get :: "(string \<times> 'v) list \<Rightarrow> string \<Rightarrow> 'v \<Rightarrow> 'v" where
  "dict_get d key dflt = (case map_of d key of None \<Rightarrow> dflt | Some v \<Rightarrow> v)"

text \<open>\<^verbatim>\<open>xs[0]\<close> raises \<^verbatim>\<open>IndexError\<close> on the empty list.\<close>

definition first :: "'a list \<Rightarrow> exn + 'a" where
  "first xs = (case xs of [] \<Rightarrow> Inl (Exn IndexError ''list index out of range'') | x # _ \<Rightarrow> Inr x)"

text \<open>
  \<^verbatim>\<open>re.split(r"[+-]", output_format)[0]\<close> on a string, and the lookup of the extension
  with its default \<^verbatim>\<open>f".{base_format}"\<close>.
\<close>

definition base_format_str :: "string \<Rightarrow> exn + string" where
  "base_format_str s = first (split_on (\<lambda>c. c = CHR ''+'' \<or> c = CHR ''-'') s)"

definition resolve_extension :: "string \<Rightarrow> string" where
  "resolve_extension base_format = dict_get FORMAT_EXTENSIONS base_format (''.'' @ base_format)"

text \<open>
  The value of \<^verbatim>\<open>output_format\<close> comes from the YAML document: \<^verbatim>\<open>re.split\<close> raises
  \<^verbatim>\<open>TypeError\<close> when it is not a string.
\<close>

definition base_format :: "pyval \<Rightarrow> exn + string" where
  "base_format output_format =
     (case output_format of
        PStr s \<Rightarrow> base_format_str s
      | _ \<Rightarrow> Inl (Exn TypeError ''expected string or bytes-like object''))"

section \<open>The world outside the script\<close>

text \<open>
  What the script reads from its environment is a parameter of the model:
  \<^item> \<open>xdg_data_home\<close> is \<^verbatim>\<open>Path(os.getenv("XDG_DATA_HOME", "~/.local/share")).expanduser()\<close>
    and \<open>home\<close> is \<^verbatim>\<open>Path.home()\<close>, as the library computes them;
  \<^item> \<open>is_dir\<close> and \<open>listdir\<close> are the file system;
  \<^item> \<open>read_yaml\<close> is reading a file and handing its text to \<^verbatim>\<open>yaml.safe_load\<close>: the
    parsed value, or the exception of the read or of the parser;
  \<^item> \<open>spawn\<close> is launching a command and waiting for it: its exit status, or the
    exception of the launch (the program is not installed, say).
\<close>

datatype call = Call (args: "string list") (cwd: "path option")

record world =
  xdg_data_home :: path
  home :: path
  is_dir :: "path \<Rightarrow> bool"
  listdir :: "path \<Rightarrow> string list"
  read_yaml :: "string \<Rightarrow> exn + pyval"
  spawn :: "call \<Rightarrow> exn + int"

text \<open>\<^verbatim>\<open>defaults_dir.glob("*.yaml")\<close>: the entries whose name ends in \<open>.yaml\<close>.\<close>

definition glob_yaml :: "world \<Rightarrow> path \<Rightarrow> path list" where
  "glob_yaml w d = map (joinpath d) (filter (\<lambda>n. endswith n ''.yaml'') (listdir w d))"

text \<open>\<^verbatim>\<open>subprocess.run(args, cwd=..., check=...)\<close>.\<close>

definition subprocess_run :: "world \<Rightarrow> call \<Rightarrow> bool \<Rightarrow> exn + int" where
  "subprocess_run w c check =
     (case spawn w c of
        Inl e \<Rightarrow> Inl e
      | Inr rc \<Rightarrow>
          if check \<and> rc \<noteq> 0
          then Inl (Exn CalledProcessError ''Command returned non-zero exit status'')
          else Inr rc)"

section \<open>Discovery of the defaults files\<close>

definition get_pandoc_data_dir :: "world \<Rightarrow> path option" where
  "get_pandoc_data_dir w =
     (let possible_paths = [joinpath (xdg_data_home w) ''pandoc'', joinpath (home w) ''.pandoc'']
      in find (is_dir w) possible_paths)"

text \<open>
  The dict \<^verbatim>\<open>defaults_files\<close> keeps its keys in insertion order; \<^verbatim>\<open>d[k] = v\<close> on a key
  it holds replaces the value in place.
\<close>

definition dict_set :: "(string \<times> 'v) list \<Rightarrow> string \<Rightarrow> 'v \<Rightarrow> (string \<times> 'v) list" where
  "dict_set d k v =
     (if k \<in> set (map fst d) then map (\<lambda>(k', v'). if k' = k then (k', v) else (k', v')) d
      else d @ [(k, v)])"

text \<open>
  The body of the \<^verbatim>\<open>try\<close> in the loop of \<^verbatim>\<open>_find_defaults_files\<close>, on one file and the
  dict so far.
\<close>

definition try_defaults_file ::
  "world \<Rightarrow> path \<Rightarrow> (string \<times> path) list \<Rightarrow> exn + (string \<times> path) list" where
  "try_defaults_file w filepath defaults_files =
     (case read_yaml w (str_path filepath) of
        Inl e \<Rightarrow> Inl e
      | Inr config \<Rightarrow>
          (case output_format_of config of
             Inl e \<Rightarrow> Inl e
           | Inr output_format \<Rightarrow>
               if truthy output_format
               then Inr (dict_set defaults_files (stem filepath) filepath)
               else Inr defaults_files))"

text \<open>
  The loop: \<^verbatim>\<open>except (yaml.YAMLError, IOError): continue\<close> goes on with the next file;
  an exception of any other class leaves the loop and the function.
\<close>

fun find_loop ::
  "world \<Rightarrow> path list \<Rightarrow> (string \<times> path) list \<Rightarrow> exn + (string \<times> path) list" where
  "find_loop w [] defaults_files = Inr defaults_files"
| "find_loop w (filepath # rest) defaults_files =
     (case try_defaults_file w filepath defaults_files of
        Inr defaults_files' \<Rightarrow> find_loop w rest defaults_files'
      | Inl e \<Rightarrow>
          if cls e = YAMLError \<or> cls e = OSError then find_loop w rest defaults_files
          else Inl e)"

definition find_defaults_files :: "world \<Rightarrow> exn + (string \<times> path) list" where
  "find_defaults_files w =
     (case get_pandoc_data_dir w of
        None \<Rightarrow> Inr []
      | Some data_dir \<Rightarrow>
          let defaults_dir = joinpath data_dir ''defaults''
          in if \<not> is_dir w defaults_dir then Inr []
             else find_loop w (glob_yaml w defaults_dir) [])"

section \<open>The conversion, run in the child process\<close>

text \<open>
  \<^verbatim>\<open>_run_conversion\<close> returns nothing; what it does is the list of the commands it
  launches, in order. Its outcome is that list together with \<open>Inr ()\<close> when it returns
  and \<open>Inl e\<close> when the exception \<open>e\<close> leaves it.

  The handler \<^verbatim>\<open>except Exception as e\<close> reads the local variable \<^verbatim>\<open>input_path_obj\<close>,
  which the \<^verbatim>\<open>try\<close> block assigns after it has read the defaults file and resolved the
  extension. The handler therefore takes the binding of that variable at the moment of the
  exception: \<open>None\<close> when it is not yet assigned, and reading it raises
  \<^verbatim>\<open>UnboundLocalError\<close> (before the notification is launched, whose arguments are
  evaluated first).
\<close>

definition except_handler ::
  "world \<Rightarrow> path option \<Rightarrow> exn \<Rightarrow> call list \<Rightarrow> (exn + unit) \<times> call list" where
  "except_handler w input_path_obj e calls =
     (case input_path_obj of
        None \<Rightarrow>
          (Inl (Exn UnboundLocalError
             ''cannot access local variable input_path_obj where it is not associated with a value''),
           calls)
      | Some p \<Rightarrow>
          let c = Call [''notify-send'', ''Pandoc Conversion Error'',
                        ''Error converting '' @ name p @ '': '' @ msg e] None
          in (case subprocess_run w c False of
                Inl e' \<Rightarrow> (Inl e', calls @ [c])
              | Inr _ \<Rightarrow> (Inr (), calls @ [c])))"

definition run_conversion :: "world \<Rightarrow> string \<Rightarrow> string \<Rightarrow> (exn + unit) \<times> call list" where
  "run_conversion w input_path defaults_file =
     (case (case read_yaml w defaults_file of
              Inl e \<Rightarrow> Inl e
            | Inr config \<Rightarrow> output_format_of config) of
        Inl e \<Rightarrow> except_handler w None e []
      | Inr output_format \<Rightarrow>
          if \<not> truthy output_format then (Inr (), [])
          else
            (case base_format output_format of
               Inl e \<Rightarrow> except_handler w None e []
             | Inr base \<Rightarrow>
                 let extension = resolve_extension base;
                     input_path_obj = Path input_path
                 in (case with_suffix input_path_obj extension of
                       Inl e \<Rightarrow> except_handler w (Some input_path_obj) e []
                     | Inr output_path \<Rightarrow>
                         let pandoc = Call [''pandoc'', ''-d'', defaults_file, input_path,
                                            ''-o'', str_path output_path]
                                           (Some (parent input_path_obj))
                         in (case subprocess_run w pandoc True of
                               Inl e \<Rightarrow> except_handler w (Some input_path_obj) e [pandoc]
                             | Inr _ \<Rightarrow>
                                 let done = Call [''notify-send'', ''Pandoc Conversion Complete'',
                                                  ''Converted '' @ name input_path_obj @ '' to ''
                                                    @ name output_path] None
                                 in (case subprocess_run w done False of
                                       Inl e \<Rightarrow>
                                         except_handler w (Some input_path_obj) e [pandoc, done]
                                     | Inr _ \<Rightarrow> (Inr (), [pandoc, done]))))))"

text \<open>
  \<^verbatim>\<open>_convert_file\<close> starts a daemon process that runs \<^verbatim>\<open>_run_conversion\<close> on the two
  paths as strings; the model gives the outcome of that child.
\<close>

definition convert_file :: "world \<Rightarrow> path \<Rightarrow> path \<Rightarrow> (exn + unit) \<times> call list" where
  "convert_file w input_path defaults_file =
     run_conversion w (str_path input_path) (str_path defaults_file)"

section \<open>The menu\<close>

text \<open>
  \<^verbatim>\<open>urllib.parse.unquote\<close>: every \<open>%\<close> followed by two hexadecimal digits becomes the
  byte they denote; any other \<open>%\<close> is kept. (The library then decodes the bytes as UTF-8
  and replaces what does not decode by U+FFFD; the model keeps the bytes. Both leave
  every ASCII byte, so every dot and slash, where it is.)
\<close>

definition hexval :: "char \<Rightarrow> nat option" where
  "hexval c =
     (let n = (of_char c :: nat)
      in if 48 \<le> n \<and> n \<le> 57 then Some (n - 48)
         else if 65 \<le> n \<and> n \<le> 70 then Some (n - 55)
         else if 97 \<le> n \<and> n \<le> 102 then Some (n - 87)
         else None)"

fun unquote :: "string \<Rightarrow> string" where
  "unquote (c # h1 # h2 # rest) =
     (if c = CHR ''%'' then
        (case (hexval h1, hexval h2) of
           (Some a, Some b) \<Rightarrow> char_of (16 * a + b) # unquote rest
         | _ \<Rightarrow> c # unquote (h1 # h2 # rest))
      else c # unquote (h1 # h2 # rest))"
| "unquote (c # cs) = c # unquote cs"
| "unquote [] = []"

text \<open>
  A \<^verbatim>\<open>Nautilus.FileInfo\<close> is read through \<^verbatim>\<open>get_uri()\<close> only. A \<^verbatim>\<open>Nautilus.MenuItem\<close>
  has a name, a label, a tip, a submenu and, when \<^verbatim>\<open>activate\<close> is connected, the two
  paths its callback hands to \<^verbatim>\<open>_convert_file\<close>.
\<close>

datatype file_info = FileInfo (get_uri: string)

datatype menu_item =
  MenuItem (item_name: string) (item_label: string) (item_tip: string)
    (submenu: "menu_item list") (activate: "(path \<times> path) option")

definition get_file_items :: "(string \<times> path) list \<Rightarrow> file_info list \<Rightarrow> menu_item list" where
  "get_file_items defaults_files files =
     (if length files \<noteq> 1 then []
      else
        let file_info = files ! 0;
            file_path = Path (unquote (drop 7 (get_uri file_info)))
        in if lower (suffix file_path) \<notin> set [''.md'', ''.markdown''] then []
           else
             let sub_items =
                   map (\<lambda>(menu_name, defaults_path).
                          MenuItem (''PandocConverter::Convert::'' @ menu_name) menu_name
                            (''Convert using '' @ menu_name @ '' defaults'') []
                            (Some (file_path, defaults_path)))
                     defaults_files;
                 convert_item =
                   MenuItem ''PandocConverter::Convert'' ''Convert'' ''Convert using Pandoc''
                     sub_items None
             in if defaults_files \<noteq> [] then [convert_item] else [])"

definition get_background_items :: "path \<Rightarrow> menu_item list" where
  "get_background_items current_folder = []"

section \<open>Example worlds\<close>

text \<open>
  Concrete inputs for the examples below: a home directory \<open>/home/u\<close> whose pandoc data
  directory is \<open>/home/u/.pandoc\<close>, with a \<open>defaults\<close> directory that lists \<open>names\<close>;
  \<open>fs\<close> gives, for the files that can be read, what reading and parsing them yields; every
  command that is launched exits with status 0.
\<close>

definition files_of :: "(string \<times> (exn + pyval)) list \<Rightarrow> string \<Rightarrow> exn + pyval" where
  "files_of fs f =
     (case map_of fs f of
        None \<Rightarrow> Inl (Exn OSError ''No such file or directory'')
      | Some r \<Rightarrow> r)"

definition example_world :: "string list \<Rightarrow> (string \<times> (exn + pyval)) list \<Rightarrow> world" where
  "example_world names fs =
     \<lparr> xdg_data_home = Path ''/home/u/.local/share'',
       home = Path ''/home/u'',
       is_dir = (\<lambda>p. p = Path ''/home/u/.pandoc'' \<or> p = Path ''/home/u/.pandoc/defaults''),
       listdir = (\<lambda>p. if p = Path ''/home/u/.pandoc/defaults'' then names else []),
       read_yaml = files_of fs,
       spawn = (\<lambda>c. Inr 0) \<rparr>"

text \<open>
  A defaults directory with four files: \<open>pdf.yaml\<close> (\<open>to: pdf\<close>), \<open>broken.yaml\<close> (not
  valid YAML), \<open>filter.yaml\<close> (a mapping without \<open>to\<close> and \<open>write\<close>) and
  \<open>slides.yaml\<close> (\<open>write: revealjs\<close>).
\<close>

definition demo_world :: world where
  "demo_world =
     example_world [''pdf.yaml'', ''broken.yaml'', ''filter.yaml'', ''slides.yaml'']
       [(''/home/u/.pandoc/defaults/pdf.yaml'', Inr (PDict [(PStr ''to'', PStr ''pdf'')])),
        (''/home/u/.pandoc/defaults/broken.yaml'',
         Inl (Exn YAMLError ''mapping values are not allowed here'')),
        (''/home/u/.pandoc/defaults/filter.yaml'',
         Inr (PDict [(PStr ''filters'', PList [PStr ''pandoc-crossref''])])),
        (''/home/u/.pandoc/defaults/slides.yaml'',
         Inr (PDict [(PStr ''write'', PStr ''revealjs'')]))]"


section \<open>Format and extension\<close>

lemma split_on_takeWhile: "\<exists>rest. split_on P s = takeWhile (\<lambda>c. \<not> P c) s # rest"
  by (induction s) auto

lemma base_format_str_takeWhile:
  "base_format_str s = Inr (takeWhile (\<lambda>c. c \<noteq> CHR ''+'' \<and> c \<noteq> CHR ''-'') s)"
proof -
  obtain rest where "split_on (\<lambda>c. c = CHR ''+'' \<or> c = CHR ''-'') s
      = takeWhile (\<lambda>c. \<not> (c = CHR ''+'' \<or> c = CHR ''-'')) s # rest"
    using split_on_takeWhile by blast
  then show ?thesis by (simp add: base_format_str_def first_def)
qed

lemma resolve_extension_table:
  "resolve_extension b =
     (if b = ''docx'' then ''.docx''
      else if b = ''epub'' then ''.epub''
      else if b = ''html'' then ''.html''
      else if b = ''markdown'' then ''.md''
      else if b = ''odt'' then ''.odt''
      else if b = ''pdf'' then ''.pdf''
      else if b = ''pptx'' then ''.pptx''
      else if b = ''tei'' then ''.xml''
      else if b = ''latex'' then ''.tex''
      else if b = ''typst'' then ''.typ''
      else if b = ''revealjs'' then ''.html''
      else ''.'' @ b)"
  by (simp add: resolve_extension_def dict_get_def FORMAT_EXTENSIONS_def)

text \<open>
  Claim C5. For every output-format string \<open>s\<close>, the base format is the prefix of \<open>s\<close>
  before its first \<open>+\<close> or \<open>-\<close> (all of \<open>s\<close> when it has neither). For every base
  format \<open>b\<close>, the extension is the table's value for \<open>b\<close> when the table has one, and
  the dot followed by \<open>b\<close> otherwise; the table is spelled out. The format
  \<open>markdown+smart\<close> has the base format \<open>markdown\<close>, whose extension is \<open>.md\<close>.
\<close>

theorem format_resolves_to_extension:
  "base_format (PStr s) = Inr (takeWhile (\<lambda>c. c \<noteq> CHR ''+'' \<and> c \<noteq> CHR ''-'') s)
   \<and> resolve_extension b =
       (case map_of FORMAT_EXTENSIONS b of Some ext \<Rightarrow> ext | None \<Rightarrow> ''.'' @ b)
   \<and> resolve_extension b =
       (if b = ''docx'' then ''.docx''
        else if b = ''epub'' then ''.epub''
        else if b = ''html'' then ''.html''
        else if b = ''markdown'' then ''.md''
        else if b = ''odt'' then ''.odt''
        else if b = ''pdf'' then ''.pdf''
        else if b = ''pptx'' then ''.pptx''
        else if b = ''tei'' then ''.xml''
        else if b = ''latex'' then ''.tex''
        else if b = ''typst'' then ''.typ''
        else if b = ''revealjs'' then ''.html''
        else ''.'' @ b)
   \<and> base_format (PStr ''markdown+smart'') = Inr ''markdown''
   \<and> resolve_extension ''markdown'' = ''.md''"
proof -
  have 1: "base_format (PStr s) = Inr (takeWhile (\<lambda>c. c \<noteq> CHR ''+'' \<and> c \<noteq> CHR ''-'') s)" for s
    by (simp add: base_format_def base_format_str_takeWhile)
  have 2: "resolve_extension b =
       (case map_of FORMAT_EXTENSIONS b of Some ext \<Rightarrow> ext | None \<Rightarrow> ''.'' @ b)"
    by (simp add: resolve_extension_def dict_get_def split: option.splits)
  have 3: "base_format (PStr ''markdown+smart'') = Inr ''markdown''"
    by (simp add: 1)
  have 4: "resolve_extension ''markdown'' = ''.md''"
    by (simp add: resolve_extension_table)
  show ?thesis
    by (intro conjI 1 2 3 4 resolve_extension_table)
qed

section \<open>The menu filter\<close>

lemma get_file_items_single:
  "get_file_items d [f] =
     (if lower (suffix (Path (unquote (drop 7 (get_uri f))))) \<in> set [''.md'', ''.markdown'']
         \<and> d \<noteq> []
      then [MenuItem ''PandocConverter::Convert'' ''Convert'' ''Convert using Pandoc''
              (map (\<lambda>(menu_name, defaults_path).
                      MenuItem (''PandocConverter::Convert::'' @ menu_name) menu_name
                        (''Convert using '' @ menu_name @ '' defaults'') []
                        (Some (Path (unquote (drop 7 (get_uri f))), defaults_path))) d)
              None]
      else [])"
  by (simp add: get_file_items_def Let_def)

lemma suffix_NOTES: "suffix (Path ''/home/u/NOTES.MD'') = ''.MD''"
  by (simp add: suffix_def Path_def splitroot_def name_def suffix_of_name_def rfind_def)

lemma suffix_Readme: "suffix (Path ''/home/u/Readme.Markdown'') = ''.Markdown''"
  by (simp add: suffix_def Path_def splitroot_def name_def suffix_of_name_def rfind_def)

text \<open>
  Claim C7, as the code has it. The claim asks for the extension to be \<open>.md\<close> or
  \<open>.markdown\<close>; the code tests the lower-cased extension. One selected file
  \<open>NOTES.MD\<close>, whose extension \<open>.MD\<close> is neither, gets a menu.
\<close>

theorem upper_case_extension_counterexample:
  "length [FileInfo ''file:///home/u/NOTES.MD''] = 1
   \<and> suffix (Path (unquote (drop 7 (get_uri (FileInfo ''file:///home/u/NOTES.MD''))))) = ''.MD''
   \<and> ''.MD'' \<notin> set [''.md'', ''.markdown'']
   \<and> get_file_items [(''pdf'', PurePath ''/'' [''d'', ''pdf.yaml''])]
        [FileInfo ''file:///home/u/NOTES.MD''] \<noteq> []"
  by (simp add: get_file_items_single suffix_NOTES lower_def lower_char_def)

text \<open>
  Claim C7, amended. \<^verbatim>\<open>get_file_items\<close> returns a non-empty list only when the selection
  is exactly one file whose extension, lower-cased, is \<open>.md\<close> or \<open>.markdown\<close>; on
  every other selection (no file, two or more files, one file with another extension) it
  returns the empty list.
\<close>

theorem menu_only_for_single_markdown_file:
  assumes "get_file_items defaults_files files \<noteq> []"
  shows "\<exists>f. files = [f]
           \<and> lower (suffix (Path (unquote (drop 7 (get_uri f))))) \<in> set [''.md'', ''.markdown'']"
proof -
  from assms have "length files = 1"
    by (auto simp: get_file_items_def split: if_splits)
  then obtain f where f: "files = [f]"
    by (cases files) auto
  with assms have "lower (suffix (Path (unquote (drop 7 (get_uri f))))) \<in> set [''.md'', ''.markdown'']"
    by (auto simp: get_file_items_single split: if_splits)
  with f show ?thesis by blast
qed

theorem menu_only_for_single_markdown_file_witness:
  "get_file_items [(''pdf'', PurePath ''/'' [''d'', ''pdf.yaml''])]
       [FileInfo ''file:///home/u/notes.md''] \<noteq> []
   \<and> (\<exists>f. [FileInfo ''file:///home/u/notes.md''] = [f]
         \<and> lower (suffix (Path (unquote (drop 7 (get_uri f))))) \<in> set [''.md'', ''.markdown''])"
proof -
  have ne: "get_file_items [(''pdf'', PurePath ''/'' [''d'', ''pdf.yaml''])]
       [FileInfo ''file:///home/u/notes.md''] \<noteq> []"
    by (simp add: get_file_items_single lower_def lower_char_def suffix_def Path_def
        splitroot_def name_def suffix_of_name_def rfind_def)
  show ?thesis
    using ne menu_only_for_single_markdown_file [OF ne] by blast
qed

text \<open>
  Claim C9. With no defaults file discovered, \<^verbatim>\<open>get_file_items\<close> returns the empty list
  on every selection: the item \<open>Convert\<close> is never returned with an empty submenu.
\<close>

theorem no_menu_without_defaults: "get_file_items [] files = []"
  by (simp add: get_file_items_def Let_def)

text \<open>
  Claim C10. The filter lower-cases the extension: for every mapping of defaults files,
  one selected file whose extension is \<open>.md\<close> or \<open>.markdown\<close> once lower-cased
  (\<open>.MD\<close>, \<open>.Markdown\<close>, and the lower-case forms themselves) gets the whole menu of
  \<^verbatim>\<open>get_file_items\<close>: the item \<open>Convert\<close> whose submenu has, for each defaults file
  in order, the item named and labelled after it whose activation converts the selected
  file with that defaults file; and, as for the lower-case forms, nothing when there is no
  defaults file.
\<close>

theorem markdown_filter_ignores_case:
  assumes "lower (suffix (Path (unquote (drop 7 (get_uri f))))) \<in> set [''.md'', ''.markdown'']"
  shows "get_file_items defaults_files [f] =
           (if defaults_files \<noteq> [] then
              [MenuItem ''PandocConverter::Convert'' ''Convert'' ''Convert using Pandoc''
                 (map (\<lambda>(menu_name, defaults_path).
                         MenuItem (''PandocConverter::Convert::'' @ menu_name) menu_name
                           (''Convert using '' @ menu_name @ '' defaults'') []
                           (Some (Path (unquote (drop 7 (get_uri f))), defaults_path)))
                    defaults_files)
                 None]
            else [])"
  using assms by (simp add: get_file_items_single)

theorem markdown_filter_ignores_case_witness:
  "suffix (Path (unquote (drop 7 (get_uri (FileInfo ''file:///home/u/NOTES.MD''))))) = ''.MD''
   \<and> lower ''.MD'' = ''.md''
   \<and> get_file_items [(''pdf'', PurePath ''/'' [''d'', ''pdf.yaml''])]
        [FileInfo ''file:///home/u/NOTES.MD'']
       = [MenuItem ''PandocConverter::Convert'' ''Convert'' ''Convert using Pandoc''
            [MenuItem ''PandocConverter::Convert::pdf'' ''pdf'' ''Convert using pdf defaults'' []
               (Some (PurePath ''/'' [''home'', ''u'', ''NOTES.MD''],
                      PurePath ''/'' [''d'', ''pdf.yaml'']))]
            None]
   \<and> get_file_items [] [FileInfo ''file:///home/u/NOTES.MD''] = []
   \<and> suffix (Path (unquote (drop 7 (get_uri (FileInfo ''file:///home/u/notes.md''))))) = ''.md''
   \<and> lower ''.md'' = ''.md''
   \<and> get_file_items [(''pdf'', PurePath ''/'' [''d'', ''pdf.yaml''])]
        [FileInfo ''file:///home/u/notes.md'']
       = [MenuItem ''PandocConverter::Convert'' ''Convert'' ''Convert using Pandoc''
            [MenuItem ''PandocConverter::Convert::pdf'' ''pdf'' ''Convert using pdf defaults'' []
               (Some (PurePath ''/'' [''home'', ''u'', ''notes.md''],
                      PurePath ''/'' [''d'', ''pdf.yaml'']))]
            None]"
proof -
  let ?d = "[(''pdf'', PurePath ''/'' [''d'', ''pdf.yaml''])]"
  have sn: "suffix (Path ''/home/u/notes.md'') = ''.md''"
    by (simp add: suffix_def Path_def splitroot_def name_def suffix_of_name_def rfind_def)
  have pN: "Path ''/home/u/NOTES.MD'' = PurePath ''/'' [''home'', ''u'', ''NOTES.MD'']"
    by (simp add: Path_def splitroot_def)
  have pn: "Path ''/home/u/notes.md'' = PurePath ''/'' [''home'', ''u'', ''notes.md'']"
    by (simp add: Path_def splitroot_def)
  have lN: "lower ''.MD'' = ''.md''"
    by (simp add: lower_def lower_char_def)
  have ln: "lower ''.md'' = ''.md''"
    by (simp add: lower_def lower_char_def)
  have a: "lower (suffix (Path (unquote (drop 7 (get_uri (FileInfo ''file:///home/u/NOTES.MD''))))))
            \<in> set [''.md'', ''.markdown'']"
    by (simp add: suffix_NOTES lN)
  have b: "lower (suffix (Path (unquote (drop 7 (get_uri (FileInfo ''file:///home/u/notes.md''))))))
            \<in> set [''.md'', ''.markdown'']"
    by (simp add: sn ln)
  show ?thesis
    using markdown_filter_ignores_case [OF a, of ?d] markdown_filter_ignores_case [OF a, of "[]"]
      markdown_filter_ignores_case [OF b, of ?d] suffix_NOTES sn lN ln
    by (simp add: pN pn)
qed

section \<open>The output format of a defaults file\<close>

lemma example_read_yaml: "read_yaml (example_world names fs) f = files_of fs f"
  by (simp add: example_world_def)

text \<open>
  Claim C4, as the code has it. The claim takes the format from \<open>to\<close> whenever the field
  is present. A document with \<open>to: ""\<close> and \<open>write: html\<close> has the field \<open>to\<close>, and
  its format is taken from \<open>write\<close>; a document whose only field is \<open>to: ""\<close> has the
  field \<open>to\<close>, and discovery skips it.
\<close>

theorem falsy_to_field_counterexample:
  "map_of [(PStr ''to'', PStr ''''), (PStr ''write'', PStr ''html'')] (PStr ''to'')
     = Some (PStr '''')
   \<and> output_format_of (PDict [(PStr ''to'', PStr ''''), (PStr ''write'', PStr ''html'')])
     = Inr (PStr ''html'')
   \<and> map_of [(PStr ''to'', PStr '''')] (PStr ''to'') = Some (PStr '''')
   \<and> try_defaults_file
        (example_world [''draft.yaml'']
           [(''/home/u/.pandoc/defaults/draft.yaml'', Inr (PDict [(PStr ''to'', PStr '''')]))])
        (Path ''/home/u/.pandoc/defaults/draft.yaml'') [] = Inr []"
  by (simp add: output_format_of_def py_get_def try_defaults_file_def example_read_yaml
      files_of_def str_path_def Path_def splitroot_def)

text \<open>
  Claim C4, amended. For every parsed document that is a mapping, with \<open>a\<close> the value of
  its field \<open>to\<close> and \<open>b\<close> the value of its field \<open>write\<close> (\<^verbatim>\<open>None\<close> for a field that
  is absent): the output format is \<open>a\<close> whenever \<open>a\<close> is truthy, and \<open>b\<close> otherwise, so
  \<open>write\<close> is consulted only when \<open>to\<close> is absent or holds a falsy value (null, the empty
  string, zero, false, an empty list or mapping); and discovery skips the document exactly
  when neither field holds a truthy value.
\<close>

theorem output_format_from_truthy_field:
  assumes "a = (case map_of kvs (PStr ''to'') of None \<Rightarrow> PNone | Some v \<Rightarrow> v)"
      and "b = (case map_of kvs (PStr ''write'') of None \<Rightarrow> PNone | Some v \<Rightarrow> v)"
      and "read_yaml w (str_path filepath) = Inr (PDict kvs)"
  shows "output_format_of (PDict kvs) = Inr (if truthy a then a else b)
         \<and> try_defaults_file w filepath defaults_files =
             Inr (if truthy a \<or> truthy b
                  then dict_set defaults_files (stem filepath) filepath
                  else defaults_files)"
  using assms by (simp add: output_format_of_def py_get_def try_defaults_file_def)

lemma tex_yaml_path:
  "str_path (PurePath ''/'' [''home'', ''u'', ''.pandoc'', ''defaults'', ''tex.yaml''])
     = ''/home/u/.pandoc/defaults/tex.yaml''"
  by (simp add: str_path_def)

lemma tex_yaml_stem:
  "stem (PurePath ''/'' [''home'', ''u'', ''.pandoc'', ''defaults'', ''tex.yaml'']) = ''tex''"
  by (simp add: stem_def name_def stem_of_name_def rfind_def)

theorem output_format_from_truthy_field_witness:
  "PNone = (case map_of [(PStr ''write'', PStr ''latex+raw_tex'')] (PStr ''to'') of
              None \<Rightarrow> PNone | Some v \<Rightarrow> v)
   \<and> PStr ''latex+raw_tex''
       = (case map_of [(PStr ''write'', PStr ''latex+raw_tex'')] (PStr ''write'') of
            None \<Rightarrow> PNone | Some v \<Rightarrow> v)
   \<and> read_yaml (example_world [''tex.yaml'']
         [(''/home/u/.pandoc/defaults/tex.yaml'',
           Inr (PDict [(PStr ''write'', PStr ''latex+raw_tex'')]))])
        (str_path (PurePath ''/'' [''home'', ''u'', ''.pandoc'', ''defaults'', ''tex.yaml'']))
       = Inr (PDict [(PStr ''write'', PStr ''latex+raw_tex'')])
   \<and> output_format_of (PDict [(PStr ''write'', PStr ''latex+raw_tex'')])
       = Inr (PStr ''latex+raw_tex'')
   \<and> try_defaults_file (example_world [''tex.yaml'']
         [(''/home/u/.pandoc/defaults/tex.yaml'',
           Inr (PDict [(PStr ''write'', PStr ''latex+raw_tex'')]))])
        (PurePath ''/'' [''home'', ''u'', ''.pandoc'', ''defaults'', ''tex.yaml'']) []
       = Inr [(''tex'', PurePath ''/'' [''home'', ''u'', ''.pandoc'', ''defaults'', ''tex.yaml''])]"
proof -
  let ?kvs = "[(PStr ''write'', PStr ''latex+raw_tex'')]"
  let ?w = "example_world [''tex.yaml'']
         [(''/home/u/.pandoc/defaults/tex.yaml'', Inr (PDict ?kvs))]"
  let ?fp = "PurePath ''/'' [''home'', ''u'', ''.pandoc'', ''defaults'', ''tex.yaml'']"
  have a: "PNone = (case map_of ?kvs (PStr ''to'') of None \<Rightarrow> PNone | Some v \<Rightarrow> v)"
    by simp
  have b: "PStr ''latex+raw_tex''
      = (case map_of ?kvs (PStr ''write'') of None \<Rightarrow> PNone | Some v \<Rightarrow> v)"
    by simp
  have r: "read_yaml ?w (str_path ?fp) = Inr (PDict ?kvs)"
    by (simp add: example_read_yaml files_of_def tex_yaml_path)
  have s: "dict_set [] (stem ?fp) ?fp = [(''tex'', ?fp)]"
    by (simp add: dict_set_def tex_yaml_stem)
  show ?thesis
    using a b r s output_format_from_truthy_field [OF a b r, of "[]"]
    by simp
qed

section \<open>The conversion in the child process\<close>

text \<open>
  Claim C8. When the defaults file is read and parsed and its \<open>to\<close>/\<open>write\<close> value is
  falsy, \<^verbatim>\<open>_run_conversion\<close> returns without an exception and without launching any
  command: neither pandoc nor a notification.
\<close>

theorem missing_format_aborts_silently:
  assumes "read_yaml w defaults_file = Inr config"
      and "output_format_of config = Inr output_format"
      and "\<not> truthy output_format"
  shows "run_conversion w input_path defaults_file = (Inr (), [])"
  using assms by (simp add: run_conversion_def)

theorem missing_format_aborts_silently_witness:
  "read_yaml (example_world [] [(''/home/u/.pandoc/defaults/filter.yaml'',
        Inr (PDict [(PStr ''from'', PStr ''markdown'')]))])
      ''/home/u/.pandoc/defaults/filter.yaml''
     = Inr (PDict [(PStr ''from'', PStr ''markdown'')])
   \<and> output_format_of (PDict [(PStr ''from'', PStr ''markdown'')]) = Inr PNone
   \<and> \<not> truthy PNone
   \<and> run_conversion (example_world [] [(''/home/u/.pandoc/defaults/filter.yaml'',
        Inr (PDict [(PStr ''from'', PStr ''markdown'')]))])
      ''/home/u/paper.md'' ''/home/u/.pandoc/defaults/filter.yaml'' = (Inr (), [])"
proof -
  let ?w = "example_world [] [(''/home/u/.pandoc/defaults/filter.yaml'',
        Inr (PDict [(PStr ''from'', PStr ''markdown'')]))]"
  have r: "read_yaml ?w ''/home/u/.pandoc/defaults/filter.yaml''
      = Inr (PDict [(PStr ''from'', PStr ''markdown'')])"
    by (simp add: example_read_yaml files_of_def)
  have f: "output_format_of (PDict [(PStr ''from'', PStr ''markdown'')]) = Inr PNone"
    by (simp add: output_format_of_def py_get_def)
  have t: "\<not> truthy PNone" by simp
  show ?thesis
    using r f t missing_format_aborts_silently [OF r f t, of "''/home/u/paper.md''"]
    by simp
qed

text \<open>
  Claim C1, on the code. A defaults file that cannot be opened makes \<^verbatim>\<open>open\<close> raise
  inside the \<^verbatim>\<open>try\<close>; the handler then reads \<^verbatim>\<open>input_path_obj\<close>, which is not assigned
  yet: \<^verbatim>\<open>UnboundLocalError\<close> leaves \<^verbatim>\<open>_run_conversion\<close> and no notification is
  launched.
\<close>

theorem unreadable_defaults_file_escapes:
  "read_yaml (example_world [] []) ''/home/u/.pandoc/defaults/pdf.yaml''
     = Inl (Exn OSError ''No such file or directory'')
   \<and> run_conversion (example_world [] []) ''/home/u/paper.md''
        ''/home/u/.pandoc/defaults/pdf.yaml''
     = (Inl (Exn UnboundLocalError
          ''cannot access local variable input_path_obj where it is not associated with a value''),
        [])"
  by (simp add: run_conversion_def except_handler_def example_read_yaml files_of_def)

section \<open>Discovery\<close>

text \<open>
  Claim C2, on the code. An empty defaults file parses to \<^verbatim>\<open>None\<close>, which has no method
  \<^verbatim>\<open>get\<close>: \<^verbatim>\<open>AttributeError\<close> is not among the exceptions the loop catches, and it
  leaves \<^verbatim>\<open>_find_defaults_files\<close>.
\<close>

theorem empty_document_escapes_discovery:
  "read_yaml (example_world [''empty.yaml'']
        [(''/home/u/.pandoc/defaults/empty.yaml'', Inr PNone)])
      ''/home/u/.pandoc/defaults/empty.yaml'' = Inr PNone
   \<and> find_defaults_files (example_world [''empty.yaml'']
        [(''/home/u/.pandoc/defaults/empty.yaml'', Inr PNone)])
     = Inl (Exn AttributeError ''object has no attribute get'')"
  by code_simp

text \<open>
  The loop keeps two invariants of the dict: its keys are distinct, and every value is a
  path whose stem is its key. Keys are never removed.
\<close>

lemma map_fst_replace:
  "map fst (map (\<lambda>(k', v'). if k' = k then (k', v) else (k', v')) d) = map fst d"
  by (induction d) auto

lemma dict_set_keys_list:
  "map fst (dict_set d k v) = (if k \<in> set (map fst d) then map fst d else map fst d @ [k])"
proof (cases "k \<in> set (map fst d)")
  case True
  then have "dict_set d k v = map (\<lambda>(k', v'). if k' = k then (k', v) else (k', v')) d"
    by (simp add: dict_set_def)
  then have "map fst (dict_set d k v) = map fst d"
    by (simp only: map_fst_replace)
  with True show ?thesis by simp
next
  case False
  then show ?thesis by (simp add: dict_set_def)
qed

lemma dict_set_keys: "set (map fst (dict_set d k v)) = insert k (set (map fst d))"
  by (auto simp: dict_set_keys_list)

lemma dict_set_distinct:
  "distinct (map fst d) \<Longrightarrow> distinct (map fst (dict_set d k v))"
  by (simp add: dict_set_keys_list)

lemma dict_set_stems:
  assumes "\<forall>(k', v') \<in> set d. stem v' = k'" and "stem v = k"
  shows "\<forall>(k', v') \<in> set (dict_set d k v). stem v' = k'"
proof (cases "k \<in> set (map fst d)")
  case True
  then have "dict_set d k v = map (\<lambda>(k', v'). if k' = k then (k', v) else (k', v')) d"
    by (simp add: dict_set_def)
  with assms show ?thesis by (auto split: if_splits)
next
  case False
  then have "dict_set d k v = d @ [(k, v)]"
    by (simp add: dict_set_def)
  with assms show ?thesis by auto
qed


lemma try_defaults_file_cases:
  assumes "try_defaults_file w fp d = Inr d'"
  shows "d' = d \<or> d' = dict_set d (stem fp) fp"
proof (cases "read_yaml w (str_path fp)")
  case (Inl e)
  with assms show ?thesis by (simp add: try_defaults_file_def)
next
  case (Inr config)
  show ?thesis
  proof (cases "output_format_of config")
    case (Inl e)
    with Inr assms show ?thesis by (simp add: try_defaults_file_def)
  next
    case fmt: (Inr output_format)
    show ?thesis
    proof (cases "truthy output_format")
      case True
      with Inr fmt assms show ?thesis by (simp add: try_defaults_file_def)
    next
      case False
      with Inr fmt assms show ?thesis by (simp add: try_defaults_file_def)
    qed
  qed
qed

lemma try_defaults_file_inv:
  assumes "try_defaults_file w fp d = Inr d'"
      and "distinct (map fst d)" and "\<forall>(k, v) \<in> set d. stem v = k"
  shows "distinct (map fst d')" and "set (map fst d) \<subseteq> set (map fst d')"
    and "\<forall>(k, v) \<in> set d'. stem v = k"
proof -
  from assms(1) have "d' = d \<or> d' = dict_set d (stem fp) fp"
    by (rule try_defaults_file_cases)
  then have "distinct (map fst d') \<and> set (map fst d) \<subseteq> set (map fst d')
      \<and> (\<forall>(k, v) \<in> set d'. stem v = k)"
  proof
    assume "d' = d"
    with assms(2,3) show ?thesis by simp
  next
    assume d': "d' = dict_set d (stem fp) fp"
    have 1: "distinct (map fst (dict_set d (stem fp) fp))"
      using assms(2) by (rule dict_set_distinct)
    have 2: "set (map fst d) \<subseteq> set (map fst (dict_set d (stem fp) fp))"
      by (simp only: dict_set_keys) (rule subset_insertI)
    have 3: "\<forall>(k, v) \<in> set (dict_set d (stem fp) fp). stem v = k"
      using assms(3) by (rule dict_set_stems) (rule refl)
    from 1 2 3 show ?thesis
      unfolding d' by (intro conjI)
  qed
  then show "distinct (map fst d')" and "set (map fst d) \<subseteq> set (map fst d')"
    and "\<forall>(k, v) \<in> set d'. stem v = k"
    by (rule conjunct1, rule conjunct2 [THEN conjunct1], rule conjunct2 [THEN conjunct2])
qed

lemma try_defaults_file_listed:
  assumes "read_yaml w (str_path fp) = Inr config"
      and "py_get config ''to'' = Inr a" and "py_get config ''write'' = Inr b"
      and "truthy a \<or> truthy b"
  shows "try_defaults_file w fp d = Inr (dict_set d (stem fp) fp)"
proof (cases "truthy a")
  case True
  with assms(1,2) show ?thesis
    by (simp add: try_defaults_file_def output_format_of_def)
next
  case False
  with assms(4) have "truthy b" by simp
  with False assms(1,2,3) show ?thesis
    by (simp add: try_defaults_file_def output_format_of_def)
qed


lemma find_loop_step:
  assumes "find_loop w (fp # fps) d = Inr m"
  shows "\<exists>d'. find_loop w fps d' = Inr m \<and> (d' = d \<or> try_defaults_file w fp d = Inr d')"
proof (cases "try_defaults_file w fp d")
  case (Inl e)
  with assms have "find_loop w fps d = Inr m"
    by (simp split: if_splits)
  then show ?thesis by blast
next
  case (Inr d')
  with assms have "find_loop w fps d' = Inr m" by simp
  with Inr show ?thesis by blast
qed

lemma find_loop_inv:
  assumes "find_loop w fps d = Inr m"
      and "distinct (map fst d)" and "\<forall>(k, v) \<in> set d. stem v = k"
  shows "distinct (map fst m) \<and> set (map fst d) \<subseteq> set (map fst m)
         \<and> (\<forall>(k, v) \<in> set m. stem v = k)"
  using assms
proof (induction fps arbitrary: d)
  case Nil
  then show ?case by simp
next
  case (Cons fp fps)
  from find_loop_step [OF Cons.prems(1)] obtain d'
    where loop: "find_loop w fps d' = Inr m"
      and d': "d' = d \<or> try_defaults_file w fp d = Inr d'"
    by blast
  from d' have inv: "distinct (map fst d') \<and> set (map fst d) \<subseteq> set (map fst d')
      \<and> (\<forall>(k, v) \<in> set d'. stem v = k)"
  proof
    assume "d' = d"
    with Cons.prems(2,3) show ?thesis by simp
  next
    assume "try_defaults_file w fp d = Inr d'"
    from try_defaults_file_inv [OF this Cons.prems(2,3)] show ?thesis
      by (intro conjI)
  qed
  then have a: "distinct (map fst d')" and b: "set (map fst d) \<subseteq> set (map fst d')"
    and c: "\<forall>(k, v) \<in> set d'. stem v = k"
    by (rule conjunct1, rule conjunct2 [THEN conjunct1], rule conjunct2 [THEN conjunct2])
  from Cons.IH [OF loop a c]
  have m: "distinct (map fst m)" "set (map fst d') \<subseteq> set (map fst m)"
    "\<forall>(k, v) \<in> set m. stem v = k"
    by (rule conjunct1, rule conjunct2 [THEN conjunct1], rule conjunct2 [THEN conjunct2])
  from b m(2) have "set (map fst d) \<subseteq> set (map fst m)" by (rule subset_trans)
  with m(1,3) show ?case by (intro conjI)
qed

lemma find_loop_listed:
  assumes "find_loop w fps d = Inr m"
      and "distinct (map fst d)" and "\<forall>(k, v) \<in> set d. stem v = k"
      and "fp \<in> set fps"
      and "read_yaml w (str_path fp) = Inr config"
      and "py_get config ''to'' = Inr a" and "py_get config ''write'' = Inr b"
      and "truthy a \<or> truthy b"
  shows "stem fp \<in> set (map fst m)"
  using assms(1-4)
proof (induction fps arbitrary: d)
  case Nil
  then show ?case by simp
next
  case (Cons x fps)
  show ?case
  proof (cases "x = fp")
    case True
    have t: "try_defaults_file w fp d = Inr (dict_set d (stem fp) fp)"
      using assms(5-8) by (rule try_defaults_file_listed)
    with True Cons.prems(1) have loop: "find_loop w fps (dict_set d (stem fp) fp) = Inr m"
      by simp
    have "set (map fst (dict_set d (stem fp) fp)) \<subseteq> set (map fst m)"
      using find_loop_inv [OF loop try_defaults_file_inv(1) [OF t Cons.prems(2,3)]
          try_defaults_file_inv(3) [OF t Cons.prems(2,3)]]
      by (rule conjunct2 [THEN conjunct1])
    moreover have "stem fp \<in> set (map fst (dict_set d (stem fp) fp))"
      by (simp only: dict_set_keys) (rule insertI1)
    ultimately show ?thesis by (rule subsetD)
  next
    case False
    with Cons.prems(4) have mem: "fp \<in> set fps" by simp
    from find_loop_step [OF Cons.prems(1)] obtain d'
      where loop: "find_loop w fps d' = Inr m"
        and d': "d' = d \<or> try_defaults_file w x d = Inr d'"
      by blast
    from d' show ?thesis
    proof
      assume "d' = d"
      with loop Cons.IH [OF _ Cons.prems(2,3) mem] show ?thesis by simp
    next
      assume t: "try_defaults_file w x d = Inr d'"
      from Cons.IH [OF loop try_defaults_file_inv(1) [OF t Cons.prems(2,3)]
          try_defaults_file_inv(3) [OF t Cons.prems(2,3)] mem]
      show ?thesis .
    qed
  qed
qed

lemma filter_key_absent:
  "k \<notin> set (map fst m) \<Longrightarrow> filter (\<lambda>(k', v'). k' = k) m = []"
  by (induction m) auto

lemma one_entry_per_key:
  assumes "distinct (map fst m)" and "k \<in> set (map fst m)"
  shows "\<exists>v. filter (\<lambda>(k', v'). k' = k) m = [(k, v)]"
  using assms
proof (induction m)
  case Nil
  then show ?case by simp
next
  case (Cons kv m)
  obtain k' v' where kv: "kv = (k', v')" by (cases kv)
  show ?case
  proof (cases "k' = k")
    case True
    with Cons.prems kv have "k \<notin> set (map fst m)" by simp
    then have "filter (\<lambda>(k', v'). k' = k) m = []"
      by (rule filter_key_absent)
    with True kv show ?thesis by simp
  next
    case False
    with Cons.prems kv have "distinct (map fst m)" "k \<in> set (map fst m)" by simp_all
    then obtain v where "filter (\<lambda>(k', v'). k' = k) m = [(k, v)]"
      using Cons.IH by blast
    with False kv show ?thesis by simp
  qed
qed

text \<open>
  Claim C3, on the code. A defaults directory holds \<open>pdf.yaml\<close>, which parses to the
  mapping \<open>to: pdf\<close>, beside an empty \<open>empty.yaml\<close>. The glob yields \<open>pdf.yaml\<close> and
  its output format is \<open>pdf\<close>, yet discovery returns no mapping at all:
  \<^verbatim>\<open>AttributeError\<close> on the empty document leaves \<^verbatim>\<open>_find_defaults_files\<close>, and with
  it goes the entry of \<open>pdf.yaml\<close>.
\<close>

theorem valid_file_lost_beside_empty_file:
  "Path ''/home/u/.pandoc/defaults/pdf.yaml''
     \<in> set (glob_yaml
          (example_world [''pdf.yaml'', ''empty.yaml'']
             [(''/home/u/.pandoc/defaults/pdf.yaml'', Inr (PDict [(PStr ''to'', PStr ''pdf'')])),
              (''/home/u/.pandoc/defaults/empty.yaml'', Inr PNone)])
          (Path ''/home/u/.pandoc/defaults''))
   \<and> read_yaml
        (example_world [''pdf.yaml'', ''empty.yaml'']
           [(''/home/u/.pandoc/defaults/pdf.yaml'', Inr (PDict [(PStr ''to'', PStr ''pdf'')])),
            (''/home/u/.pandoc/defaults/empty.yaml'', Inr PNone)])
        (str_path (Path ''/home/u/.pandoc/defaults/pdf.yaml''))
       = Inr (PDict [(PStr ''to'', PStr ''pdf'')])
   \<and> output_format_of (PDict [(PStr ''to'', PStr ''pdf'')]) = Inr (PStr ''pdf'')
   \<and> find_defaults_files
        (example_world [''pdf.yaml'', ''empty.yaml'']
           [(''/home/u/.pandoc/defaults/pdf.yaml'', Inr (PDict [(PStr ''to'', PStr ''pdf'')])),
            (''/home/u/.pandoc/defaults/empty.yaml'', Inr PNone)])
       = Inl (Exn AttributeError ''object has no attribute get'')"
  by code_simp

text \<open>
  What the loop does keep: whenever discovery returns a mapping, every file of the defaults
  directory that the glob yields, that is read and parsed, and whose parsed document is a
  mapping with a truthy value in \<open>to\<close> or in \<open>write\<close>, has exactly one entry, whose key
  is the stem of the file's name and whose value is a path with that stem.
\<close>

lemma listed_when_discovery_returns:
  assumes "find_defaults_files w = Inr defaults_files"
      and "get_pandoc_data_dir w = Some data_dir"
      and "is_dir w (joinpath data_dir ''defaults'')"
      and "filepath \<in> set (glob_yaml w (joinpath data_dir ''defaults''))"
      and "read_yaml w (str_path filepath) = Inr config"
      and "py_get config ''to'' = Inr a" and "py_get config ''write'' = Inr b"
      and "truthy a \<or> truthy b"
  shows "\<exists>v. filter (\<lambda>(k, v). k = stem filepath) defaults_files = [(stem filepath, v)]
            \<and> stem v = stem filepath"
proof -
  from assms(1-3)
  have loop: "find_loop w (glob_yaml w (joinpath data_dir ''defaults'')) [] = Inr defaults_files"
    by (simp add: find_defaults_files_def Let_def)
  have d: "distinct (map fst ([] :: (string \<times> path) list))" by simp
  have e: "\<forall>(k, v) \<in> set ([] :: (string \<times> path) list). stem v = k" by simp
  from find_loop_inv [OF loop d e]
  have inv1: "distinct (map fst defaults_files)"
    and inv3: "\<forall>(k, v) \<in> set defaults_files. stem v = k"
    by (rule conjunct1, rule conjunct2 [THEN conjunct2])
  have mem: "stem filepath \<in> set (map fst defaults_files)"
    using loop d e assms(4-8) by (rule find_loop_listed)
  from one_entry_per_key [OF inv1 mem] obtain v
    where v: "filter (\<lambda>(k, v). k = stem filepath) defaults_files = [(stem filepath, v)]" ..
  have "(stem filepath, v) \<in> set (filter (\<lambda>(k, v). k = stem filepath) defaults_files)"
    by (simp only: v list.set_intros)
  then have "(stem filepath, v) \<in> set defaults_files"
    by (simp only: set_filter mem_Collect_eq)
  with inv3 have "case (stem filepath, v) of (k, v) \<Rightarrow> stem v = k"
    by (rule bspec)
  then have "stem v = stem filepath" by simp
  with v show ?thesis by (intro exI conjI)
qed

lemma listed_when_discovery_returns_example:
  "find_defaults_files demo_world
     = Inr [(''pdf'', Path ''/home/u/.pandoc/defaults/pdf.yaml''),
            (''slides'', Path ''/home/u/.pandoc/defaults/slides.yaml'')]
   \<and> get_pandoc_data_dir demo_world = Some (Path ''/home/u/.pandoc'')
   \<and> is_dir demo_world (joinpath (Path ''/home/u/.pandoc'') ''defaults'')
   \<and> Path ''/home/u/.pandoc/defaults/pdf.yaml''
       \<in> set (glob_yaml demo_world (joinpath (Path ''/home/u/.pandoc'') ''defaults''))
   \<and> read_yaml demo_world (str_path (Path ''/home/u/.pandoc/defaults/pdf.yaml''))
       = Inr (PDict [(PStr ''to'', PStr ''pdf'')])
   \<and> py_get (PDict [(PStr ''to'', PStr ''pdf'')]) ''to'' = Inr (PStr ''pdf'')
   \<and> py_get (PDict [(PStr ''to'', PStr ''pdf'')]) ''write'' = Inr PNone
   \<and> truthy (PStr ''pdf'')
   \<and> stem (Path ''/home/u/.pandoc/defaults/pdf.yaml'') = ''pdf''
   \<and> (\<exists>v. filter (\<lambda>(k, v). k = stem (Path ''/home/u/.pandoc/defaults/pdf.yaml''))
              [(''pdf'', Path ''/home/u/.pandoc/defaults/pdf.yaml''),
               (''slides'', Path ''/home/u/.pandoc/defaults/slides.yaml'')]
            = [(stem (Path ''/home/u/.pandoc/defaults/pdf.yaml''), v)]
          \<and> stem v = stem (Path ''/home/u/.pandoc/defaults/pdf.yaml''))"
proof -
  have h1: "find_defaults_files demo_world
     = Inr [(''pdf'', Path ''/home/u/.pandoc/defaults/pdf.yaml''),
            (''slides'', Path ''/home/u/.pandoc/defaults/slides.yaml'')]"
    by code_simp
  have h2: "get_pandoc_data_dir demo_world = Some (Path ''/home/u/.pandoc'')"
    by code_simp
  have h3: "is_dir demo_world (joinpath (Path ''/home/u/.pandoc'') ''defaults'')"
    by code_simp
  have h4: "Path ''/home/u/.pandoc/defaults/pdf.yaml''
       \<in> set (glob_yaml demo_world (joinpath (Path ''/home/u/.pandoc'') ''defaults''))"
    by code_simp
  have h5: "read_yaml demo_world (str_path (Path ''/home/u/.pandoc/defaults/pdf.yaml''))
       = Inr (PDict [(PStr ''to'', PStr ''pdf'')])"
    by code_simp
  have h6: "py_get (PDict [(PStr ''to'', PStr ''pdf'')]) ''to'' = Inr (PStr ''pdf'')"
    by (simp add: py_get_def)
  have h7: "py_get (PDict [(PStr ''to'', PStr ''pdf'')]) ''write'' = Inr PNone"
    by (simp add: py_get_def)
  have h8: "truthy (PStr ''pdf'')" by simp
  have h8': "truthy (PStr ''pdf'') \<or> truthy PNone" by simp
  have h9: "stem (Path ''/home/u/.pandoc/defaults/pdf.yaml'') = ''pdf''"
    by code_simp
  show ?thesis
    by (intro conjI h1 h2 h3 h4 h5 h6 h7 h8 h9
        listed_when_discovery_returns [OF h1 h2 h3 h4 h5 h6 h7 h8'])
qed

section \<open>The destination path\<close>

text \<open>
  The suffix and the stem of a name split it at its last dot, when that dot is neither the
  first nor the last character. Replacing the suffix keeps the stem in front of the new
  suffix.
\<close>

lemma rfind_last:
  assumes "c \<notin> set e"
  shows "rfind (xs @ c # e) c = int (length xs)"
proof -
  have "takeWhile (\<lambda>x. x \<noteq> c) (rev e @ c # rev xs)
      = rev e @ takeWhile (\<lambda>x. x \<noteq> c) (c # rev xs)"
  proof (rule takeWhile_append2)
    fix x assume "x \<in> set (rev e)"
    with assms show "x \<noteq> c" by auto
  qed
  then show ?thesis
    by (simp add: rfind_def)
qed

lemma rfind_bounds: "rfind nm c < int (length nm)"
  by (simp add: rfind_def)

lemma stem_suffix_append: "stem_of_name nm @ suffix_of_name nm = nm"
  by (simp add: stem_of_name_def suffix_of_name_def Let_def)

lemma suffix_empty_stem:
  assumes "suffix_of_name nm = []"
  shows "stem_of_name nm = nm"
  using stem_suffix_append [of nm] assms by simp

lemma stem_take:
  "take (length nm - length (suffix_of_name nm)) nm = stem_of_name nm"
proof -
  have "length nm = length (stem_of_name nm) + length (suffix_of_name nm)"
    using stem_suffix_append [of nm] by (metis length_append)
  then have "length nm - length (suffix_of_name nm) = length (stem_of_name nm)"
    by simp
  then have "take (length nm - length (suffix_of_name nm)) nm
      = take (length (stem_of_name nm)) (stem_of_name nm @ suffix_of_name nm)"
    by (simp only: stem_suffix_append)
  then show ?thesis by simp
qed

lemma stem_append_ext:
  assumes "xs \<noteq> []" and "e \<noteq> []" and "CHR ''.'' \<notin> set e"
  shows "stem_of_name (xs @ CHR ''.'' # e) = xs"
    and "suffix_of_name (xs @ CHR ''.'' # e) = CHR ''.'' # e"
proof -
  have r: "rfind (xs @ CHR ''.'' # e) CHR ''.'' = int (length xs)"
    using assms(3) by (rule rfind_last)
  from assms(1) have 1: "0 < int (length xs)" by simp
  from assms(2) have 2: "int (length xs) < int (length (xs @ CHR ''.'' # e)) - 1"
    by (cases e) simp_all
  from r 1 2 show "stem_of_name (xs @ CHR ''.'' # e) = xs"
    by (simp add: stem_of_name_def)
  from r 1 2 show "suffix_of_name (xs @ CHR ''.'' # e) = CHR ''.'' # e"
    by (simp add: suffix_of_name_def)
qed

lemma stem_of_name_nonempty:
  assumes "nm \<noteq> []"
  shows "stem_of_name nm \<noteq> []"
proof (cases "0 < rfind nm CHR ''.'' \<and> rfind nm CHR ''.'' < int (length nm) - 1")
  case True
  then have "stem_of_name nm = take (nat (rfind nm CHR ''.'')) nm"
    by (simp add: stem_of_name_def)
  with True assms show ?thesis by simp
next
  case False
  then have "stem_of_name nm = nm"
    by (auto simp: stem_of_name_def Let_def)
  with assms show ?thesis by simp
qed

lemma with_suffix_returns:
  assumes "name p \<noteq> []" and "CHR ''/'' \<notin> set e" and "e \<noteq> []"
  shows "with_suffix p (CHR ''.'' # e)
           = Inr (PurePath (root p) (butlast (tail p) @ [stem p @ CHR ''.'' # e]))"
proof (cases "suffix p = []")
  case True
  then have "stem p = name p"
    by (simp add: suffix_def stem_def suffix_empty_stem)
  with True assms show ?thesis
    by (simp add: with_suffix_def startswith_def Let_def)
next
  case False
  have "take (length (name p) - length (suffix p)) (name p) = stem p"
    by (simp add: suffix_def stem_def stem_take)
  with False assms show ?thesis
    by (simp add: with_suffix_def startswith_def Let_def)
qed

lemma resolve_extension_dot:
  "resolve_extension b = CHR ''.'' # tl (resolve_extension b)"
  by (simp add: resolve_extension_table)

lemma resolve_extension_tl_nonempty:
  "b \<noteq> [] \<Longrightarrow> tl (resolve_extension b) \<noteq> []"
  by (simp add: resolve_extension_table)

lemma resolve_extension_no_slash:
  "CHR ''/'' \<notin> set b \<Longrightarrow> CHR ''/'' \<notin> set (tl (resolve_extension b))"
  by (simp add: resolve_extension_table)

lemma resolve_extension_no_dot:
  "CHR ''.'' \<notin> set b \<Longrightarrow> CHR ''.'' \<notin> set (tl (resolve_extension b))"
  by (simp add: resolve_extension_table)

text \<open>
  Claim C6, as the code has it. The claim gives the destination the source's stem for
  every source path and every resolved extension. A format that is not in the table
  resolves to the dot followed by the format, whatever it holds: for \<open>custom.lua\<close>, a
  custom writer, the destination of \<open>paper.md\<close> is \<open>paper.custom.lua\<close>, whose stem is
  \<open>paper.custom\<close>. And no destination is computed when \<^verbatim>\<open>with_suffix\<close> refuses the
  suffix or the path: a format with a slash, an empty base format, a path without a name.
\<close>

theorem destination_counterexample:
  "base_format (PStr ''custom.lua'') = Inr ''custom.lua''
   \<and> with_suffix (Path ''paper.md'') (resolve_extension ''custom.lua'')
       = Inr (Path ''paper.custom.lua'')
   \<and> stem (Path ''paper.md'') = ''paper''
   \<and> stem (Path ''paper.custom.lua'') = ''paper.custom''
   \<and> base_format (PStr ''writers/custom'') = Inr ''writers/custom''
   \<and> with_suffix (Path ''paper.md'') (resolve_extension ''writers/custom'')
       = Inl (Exn ValueError ''Invalid suffix'')
   \<and> base_format (PStr ''+smart'') = Inr ''''
   \<and> with_suffix (Path ''paper.md'') (resolve_extension '''')
       = Inl (Exn ValueError ''Invalid suffix'')
   \<and> with_suffix (Path ''/'') (resolve_extension ''latex'')
       = Inl (Exn ValueError ''path has an empty name'')"
  by code_simp

text \<open>
  Claim C6, amended. For every source path with a non-empty name and every base format
  that is not empty and holds no slash, the destination is computed, lies in the same
  directory as the source, and its name is the source's stem followed by the resolved
  extension; when the base format holds no dot, the destination has the source's stem and
  the resolved extension as its suffix. So \<open>paper.md\<close> with \<open>latex+raw_tex\<close> gives
  \<open>paper.tex\<close>, and \<open>notes.md\<close> with \<open>revealjs\<close> gives \<open>notes.html\<close>.
\<close>

theorem destination_beside_source:
  assumes "name (Path input_path) \<noteq> []"
      and "b \<noteq> []" and "CHR ''/'' \<notin> set b"
  shows "\<exists>output_path.
           with_suffix (Path input_path) (resolve_extension b) = Inr output_path
           \<and> parent output_path = parent (Path input_path)
           \<and> name output_path = stem (Path input_path) @ resolve_extension b
           \<and> (CHR ''.'' \<notin> set b \<longrightarrow>
                stem output_path = stem (Path input_path)
                \<and> suffix output_path = resolve_extension b)"
proof -
  let ?p = "Path input_path"
  let ?e = "tl (resolve_extension b)"
  have ext: "resolve_extension b = CHR ''.'' # ?e"
    by (rule resolve_extension_dot)
  have e: "?e \<noteq> []"
    using assms(2) by (rule resolve_extension_tl_nonempty)
  have slash: "CHR ''/'' \<notin> set ?e"
    using assms(3) by (rule resolve_extension_no_slash)
  let ?out = "PurePath (root ?p) (butlast (tail ?p) @ [stem ?p @ CHR ''.'' # ?e])"
  have "with_suffix ?p (CHR ''.'' # ?e) = Inr ?out"
    using assms(1) slash e by (rule with_suffix_returns)
  then have w: "with_suffix ?p (resolve_extension b) = Inr ?out"
    by (simp only: ext [symmetric])
  have par: "parent ?out = parent ?p"
    by (simp add: parent_def)
  have nm': "name ?out = stem ?p @ CHR ''.'' # ?e"
    by (simp add: name_def)
  then have nm: "name ?out = stem ?p @ resolve_extension b"
    by (simp only: ext [symmetric])
  have st: "CHR ''.'' \<notin> set b \<longrightarrow>
      stem ?out = stem ?p \<and> suffix ?out = resolve_extension b"
  proof
    assume "CHR ''.'' \<notin> set b"
    then have nodot: "CHR ''.'' \<notin> set ?e"
      by (rule resolve_extension_no_dot)
    have ne: "stem_of_name (name ?p) \<noteq> []"
      using assms(1) by (rule stem_of_name_nonempty)
    then have ne': "stem ?p \<noteq> []" by (simp add: stem_def)
    have 1: "stem ?out = stem ?p"
      unfolding stem_def [of ?out] nm' using ne' e nodot by (rule stem_append_ext(1))
    have "suffix ?out = CHR ''.'' # ?e"
      unfolding suffix_def [of ?out] nm' using ne' e nodot by (rule stem_append_ext(2))
    then have 2: "suffix ?out = resolve_extension b"
      by (simp only: ext [symmetric])
    from 1 2 show "stem ?out = stem ?p \<and> suffix ?out = resolve_extension b" ..
  qed
  from w par nm st show ?thesis
    by (intro exI [of _ ?out] conjI)
qed

theorem destination_beside_source_witness:
  "name (Path ''paper.md'') \<noteq> [] \<and> ''latex'' \<noteq> [] \<and> CHR ''/'' \<notin> set ''latex''
   \<and> CHR ''.'' \<notin> set ''latex''
   \<and> base_format (PStr ''latex+raw_tex'') = Inr ''latex''
   \<and> with_suffix (Path ''paper.md'') (resolve_extension ''latex'') = Inr (Path ''paper.tex'')
   \<and> (\<exists>output_path.
          with_suffix (Path ''paper.md'') (resolve_extension ''latex'') = Inr output_path
          \<and> parent output_path = parent (Path ''paper.md'')
          \<and> name output_path = stem (Path ''paper.md'') @ resolve_extension ''latex''
          \<and> (CHR ''.'' \<notin> set ''latex'' \<longrightarrow>
               stem output_path = stem (Path ''paper.md'')
               \<and> suffix output_path = resolve_extension ''latex''))
   \<and> base_format (PStr ''revealjs'') = Inr ''revealjs''
   \<and> with_suffix (Path ''notes.md'') (resolve_extension ''revealjs'') = Inr (Path ''notes.html'')"
proof -
  have h1: "name (Path ''paper.md'') \<noteq> []" by code_simp
  have h2: "''latex'' \<noteq> []" by simp
  have h3: "CHR ''/'' \<notin> set ''latex''" by simp
  have h4: "CHR ''.'' \<notin> set ''latex''" by simp
  have h5: "base_format (PStr ''latex+raw_tex'') = Inr ''latex''" by code_simp
  have h6: "with_suffix (Path ''paper.md'') (resolve_extension ''latex'') = Inr (Path ''paper.tex'')"
    by code_simp
  have h7: "base_format (PStr ''revealjs'') = Inr ''revealjs''" by code_simp
  have h8: "with_suffix (Path ''notes.md'') (resolve_extension ''revealjs'')
      = Inr (Path ''notes.html'')"
    by code_simp
  show ?thesis
    by (intro conjI h1 h2 h3 h4 h5 h6 h7 h8 destination_beside_source [OF h1 h2 h3])
qed

text \<open>On every other input \<^verbatim>\<open>with_suffix\<close> raises \<^verbatim>\<open>ValueError\<close>.\<close>

lemma table_keys_no_slash:
  assumes "CHR ''/'' \<in> set b"
  shows "map_of FORMAT_EXTENSIONS b = None"
proof -
  have "b \<notin> set (map fst FORMAT_EXTENSIONS)"
  proof
    assume "b \<in> set (map fst FORMAT_EXTENSIONS)"
    then have "CHR ''/'' \<notin> set b"
      unfolding FORMAT_EXTENSIONS_def by (elim disjE | simp)+
    with assms show False by simp
  qed
  then show ?thesis
    by (simp add: map_of_eq_None_iff)
qed

lemma with_suffix_raises:
  assumes "name p = [] \<or> b = [] \<or> CHR ''/'' \<in> set b"
  shows "\<exists>e. with_suffix p (resolve_extension b) = Inl e \<and> cls e = ValueError"
proof (cases "b = []")
  case True
  then have "resolve_extension b = ''.''"
    by (simp add: resolve_extension_table)
  then show ?thesis
    by (simp add: with_suffix_def)
next
  case False
  show ?thesis
  proof (cases "CHR ''/'' \<in> set b")
    case True
    then have "resolve_extension b = ''.'' @ b"
      by (simp add: resolve_extension_def dict_get_def table_keys_no_slash)
    with True show ?thesis
      by (simp add: with_suffix_def)
  next
    case nos: False
    with False assms have "name p = []" by simp
    then show ?thesis
      by (simp add: with_suffix_def Let_def)
  qed
qed

end
